theory Spec2Isabelle
  imports Main
begin

section \<open>Data model\<close>

text \<open>
  The two activities of the message pipeline, \<open>StoreMessageContentActivity\<close> (the storage
  stage) and \<open>CreateNotificationActivity\<close> (the planning stage), are embedded as functions
  that pass the state of the external stores explicitly. An \<open>async\<close> handler either throws
  or returns; that is the type \<open>promise\<close>. The \<open>Either\<close> of fp-ts is the sum type
  (\<open>Inl\<close> is \<open>left\<close>, \<open>Inr\<close> is \<open>right\<close>), its \<open>Option\<close> is \<open>option\<close>. Log calls change
  neither the result nor a store and are left out.
\<close>

datatype 'a promise = is_Rejected: Rejected string | is_Resolved: Resolved 'a

datatype BlockedInboxOrChannelEnum = INBOX | EMAIL | WEBHOOK

type_synonym QueryError = string

type_synonym MessageContent = string

type_synonym HttpsUrl = string

text \<open>
  \<open>NewMessageWithoutContent\<close>: the fields the handlers and the test generators use.
  \<open>isPending\<close> is optional in the message record.
\<close>

record NewMessageWithoutContent =
  m_id :: string
  m_fiscalCode :: string
  m_senderServiceId :: string
  m_senderUserId :: string
  m_timeToLiveSeconds :: nat
  m_isPending :: "bool option"

record CreatedMessageEventSenderMetadata =
  requireSecureChannels :: bool
  serviceName :: string

record CreatedMessageEvent =
  content :: MessageContent
  message :: NewMessageWithoutContent
  senderMetadata :: CreatedMessageEventSenderMetadata
  serviceVersion :: nat

text \<open>
  A decoded \<open>RetrievedProfile\<close>. \<open>isInboxEnabled\<close> and \<open>isWebhookEnabled\<close> are optional (the
  handlers compare them with \<open>=== true\<close>), \<open>isEmailEnabled\<close> is a boolean after decoding,
  \<open>email\<close> is optional, and \<open>blockedInboxOrChannels\<close> is an optional object from service
  ids to a \<open>Set\<close> of channels; the map holds the object's own entries. A JavaScript
  \<open>Set\<close> is the list of its elements in insertion order: \<open>has\<close> is membership and
  \<open>Array.from\<close> is the list itself.
\<close>

record RetrievedProfile =
  p_fiscalCode :: string
  isInboxEnabled :: "bool option"
  isEmailEnabled :: bool
  isWebhookEnabled :: "bool option"
  email :: "string option"
  blockedInboxOrChannels :: "(string \<rightharpoonup> BlockedInboxOrChannelEnum list) option"

record SuccessfulStoreMessageContentActivityResult =
  r_blockedInboxOrChannels :: "BlockedInboxOrChannelEnum list"
  r_profile :: RetrievedProfile

datatype FailureReason =
  BAD_DATA | MASTER_INBOX_DISABLED | PERMANENT_ERROR | PROFILE_NOT_FOUND | SENDER_BLOCKED

datatype StoreMessageContentActivityResult =
  SUCCESS SuccessfulStoreMessageContentActivityResult
  | FAILURE FailureReason

section \<open>Store capabilities\<close>

text \<open>
  The models of io-functions-commons are the handlers' parameters. Each method takes the
  state \<open>'w\<close> of the outside world and returns its \<open>Either\<close> with the new state, so a
  theorem about every \<open>ProfileModel\<close>, \<open>MessageModel\<close>, ... is a theorem about every
  behaviour of the stores, failures included.
\<close>

record 'w ProfileModel =
  findOneProfileByFiscalCode :: "string \<Rightarrow> 'w \<Rightarrow> (QueryError + RetrievedProfile option) \<times> 'w"

record ('w, 'b) MessageModel =
  attachStoredContent ::
    "'b \<Rightarrow> string \<Rightarrow> string \<Rightarrow> MessageContent \<Rightarrow> 'w \<Rightarrow> (string + unit) \<times> 'w"
  createOrUpdate_message ::
    "NewMessageWithoutContent \<Rightarrow> string \<Rightarrow> 'w \<Rightarrow> (QueryError + NewMessageWithoutContent) \<times> 'w"

section \<open>The storage stage\<close>

text \<open>
  The object \<open>profile.blockedInboxOrChannels\<close> is a plain JavaScript object, so
  \<open>bc[senderServiceId]\<close> gives the object's own entry where it has one, and otherwise,
  for a key that names a member of \<open>Object.prototype\<close>, that inherited member (a function,
  or the prototype itself for \<open>__proto__\<close>); for any other key it gives \<open>undefined\<close>.
\<close>

definition Object_prototype_keys :: "string list" where
  "Object_prototype_keys =
    [''constructor'', ''__defineGetter__'', ''__defineSetter__'', ''hasOwnProperty'',
     ''__lookupGetter__'', ''__lookupSetter__'', ''isPrototypeOf'', ''propertyIsEnumerable'',
     ''toString'', ''valueOf'', ''__proto__'', ''toLocaleString'']"

datatype 'a js_property = OwnProperty 'a | InheritedProperty | NoProperty

definition js_get :: "(string \<rightharpoonup> 'a) \<Rightarrow> string \<Rightarrow> 'a js_property" where
  "js_get obj k =
    (case obj k of
      Some v \<Rightarrow> OwnProperty v
    | None \<Rightarrow> if k \<in> set Object_prototype_keys then InheritedProperty else NoProperty)"

text \<open>
  The handler's constant \<open>blockedInboxOrChannels\<close>: the channels the user has blocked for
  the sender service, \<open>fromNullable(profile.blockedInboxOrChannels).chain(bc =>
  fromNullable(bc[senderServiceId])).getOrElse(new Set())\<close>. It is a \<open>Set\<close> (the own
  entry, or the empty default), or an inherited member of the object, which is not null,
  so \<open>fromNullable\<close> keeps it, and which is not a \<open>Set\<close>.
\<close>

datatype blocked_value = JsSet "BlockedInboxOrChannelEnum list" | NotASet

definition blockedInboxOrChannels_for :: "RetrievedProfile \<Rightarrow> string \<Rightarrow> blocked_value" where
  "blockedInboxOrChannels_for profile senderServiceId =
    (case blockedInboxOrChannels profile of
      None \<Rightarrow> JsSet []
    | Some bc \<Rightarrow>
        (case js_get bc senderServiceId of
          OwnProperty s \<Rightarrow> JsSet s
        | InheritedProperty \<Rightarrow> NotASet
        | NoProperty \<Rightarrow> JsSet []))"

text \<open>
  \<open>getStoreMessageContentActivityHandler\<close>. The codec \<open>CreatedMessageEvent.decode\<close> is the
  parameter \<open>decode\<close>. The branches follow the source in its order: decoding, the profile
  query, the missing profile, the inbox flag, the sender's block list, the blob write and
  the update of the pending flag. \<open>blockedInboxOrChannels.has\<close> is called after the test of
  the inbox flag; on a value that is not a \<open>Set\<close> there is no method \<open>has\<close> and the call
  throws a TypeError.
\<close>

definition getStoreMessageContentActivityHandler ::
  "'w ProfileModel \<Rightarrow> ('w, 'b) MessageModel \<Rightarrow> 'b \<Rightarrow> ('i \<Rightarrow> string + CreatedMessageEvent) \<Rightarrow>
   'i \<Rightarrow> 'w \<Rightarrow> StoreMessageContentActivityResult promise \<times> 'w" where
  "getStoreMessageContentActivityHandler lProfileModel lMessageModel lBlobService decode input w =
    (case decode input of
      Inl errs \<Rightarrow> (Resolved (FAILURE BAD_DATA), w)
    | Inr createdMessageEvent \<Rightarrow>
        let newMessageWithoutContent = message createdMessageEvent in
        (case findOneProfileByFiscalCode lProfileModel (m_fiscalCode newMessageWithoutContent) w of
          (Inl err, w1) \<Rightarrow> (Rejected ''Error while fetching profile'', w1)
        | (Inr None, w1) \<Rightarrow> (Resolved (FAILURE PROFILE_NOT_FOUND), w1)
        | (Inr (Some profile), w1) \<Rightarrow>
            let blocked =
                  blockedInboxOrChannels_for profile (m_senderServiceId newMessageWithoutContent);
                isInboxEnabled' = (isInboxEnabled profile = Some True)
            in
            if \<not> isInboxEnabled' then (Resolved (FAILURE MASTER_INBOX_DISABLED), w1)
            else
              (case blocked of
                NotASet \<Rightarrow>
                  (Rejected ''TypeError: blockedInboxOrChannels.has is not a function'', w1)
              | JsSet channels \<Rightarrow>
                  if INBOX \<in> set channels then (Resolved (FAILURE SENDER_BLOCKED), w1)
                  else
                    (case attachStoredContent lMessageModel lBlobService
                            (m_id newMessageWithoutContent)
                            (m_fiscalCode newMessageWithoutContent)
                            (content createdMessageEvent) w1 of
                      (Inl err, w2) \<Rightarrow> (Rejected ''Error while storing message content'', w2)
                    | (Inr att, w2) \<Rightarrow>
                        (case createOrUpdate_message lMessageModel
                                (newMessageWithoutContent\<lparr>m_isPending := Some False\<rparr>)
                                (m_fiscalCode (message createdMessageEvent)) w2 of
                          (Inl err, w3) \<Rightarrow>
                            (Rejected ''Error while updating message pending status'', w3)
                        | (Inr upd, w3) \<Rightarrow>
                            (Resolved (SUCCESS \<lparr>r_blockedInboxOrChannels = channels,
                                                 r_profile = profile\<rparr>), w3))))))"

section \<open>The planning stage\<close>

datatype NotificationAddressSourceEnum = DEFAULT_ADDRESS | PROFILE_ADDRESS | SERVICE_USER_ADDRESS

record NotificationChannelEmail =
  addressSource :: NotificationAddressSourceEnum
  toAddress :: string

record NotificationChannelWebhook =
  url :: HttpsUrl

text \<open>
  \<open>NewNotification\<close>: the object of \<open>createNewNotification\<close> with its \<open>channels\<close>; the two
  keys of \<open>channels\<close> are the fields \<open>channels_EMAIL\<close> and \<open>channels_WEBHOOK\<close>
  (\<open>toUndefined\<close> keeps an absent channel absent).
\<close>

record NewNotification =
  n_id :: string
  n_fiscalCode :: string
  n_messageId :: string
  channels_EMAIL :: "NotificationChannelEmail option"
  channels_WEBHOOK :: "NotificationChannelWebhook option"

record NotificationEvent =
  e_content :: MessageContent
  e_message :: NewMessageWithoutContent
  notificationId :: string
  e_senderMetadata :: CreatedMessageEventSenderMetadata

record NewSenderService =
  recipientFiscalCode :: string
  serviceId :: string
  version :: nat

record 'w SenderServiceModel =
  createOrUpdate_senderService ::
    "NewSenderService \<Rightarrow> string \<Rightarrow> 'w \<Rightarrow> (QueryError + NewSenderService) \<times> 'w"

record 'w NotificationModel =
  create :: "NewNotification \<Rightarrow> string \<Rightarrow> 'w \<Rightarrow> (QueryError + NewNotification) \<times> 'w"

record CreateNotificationActivityInput =
  createdMessageEvent :: CreatedMessageEvent
  storeMessageContentActivityResult :: SuccessfulStoreMessageContentActivityResult

datatype CreateNotificationActivityResult =
  kind_some bool bool NotificationEvent
  | kind_none

text \<open>
  Modelled from the spec: \<open>newSenderService\<close> is imported from io-functions-commons; it
  builds the SenderHistoryRecord (recipientId, senderServiceId, version) from its three
  arguments.
\<close>

definition newSenderService :: "string \<Rightarrow> string \<Rightarrow> nat \<Rightarrow> NewSenderService" where
  "newSenderService fiscalCode senderServiceId v =
    \<lparr>recipientFiscalCode = fiscalCode, serviceId = senderServiceId, version = v\<rparr>"

text \<open>
  Modelled from the spec: \<open>createNewNotification\<close> is imported from io-functions-commons; it
  builds a Notification for the recipient and the message with a freshly generated id,
  which it draws from the generator it is given. The generator is not pure, so it takes
  and returns the state of the world.
\<close>

definition createNewNotification ::
  "('w \<Rightarrow> string \<times> 'w) \<Rightarrow> string \<Rightarrow> string \<Rightarrow> 'w \<Rightarrow> NewNotification \<times> 'w" where
  "createNewNotification ulidGenerator fiscalCode messageId w =
    (case ulidGenerator w of
      (i, w') \<Rightarrow>
        (\<lparr>n_id = i, n_fiscalCode = fiscalCode, n_messageId = messageId,
          channels_EMAIL = None, channels_WEBHOOK = None\<rparr>, w'))"

definition getEmailAddressFromProfile :: "RetrievedProfile \<Rightarrow> NotificationChannelEmail option" where
  "getEmailAddressFromProfile profile =
    map_option (\<lambda>e. \<lparr>addressSource = PROFILE_ADDRESS, toAddress = e\<rparr>) (email profile)"

text \<open>
  \<open>createNotification\<close>: saves the notification under the partition key it is called
  with, which is \<open>newNotification.messageId\<close>, and throws when the store fails.
\<close>

definition createNotification ::
  "'w NotificationModel \<Rightarrow> CreatedMessageEventSenderMetadata \<Rightarrow> NewMessageWithoutContent \<Rightarrow>
   MessageContent \<Rightarrow> NewNotification \<Rightarrow> 'w \<Rightarrow> NotificationEvent promise \<times> 'w" where
  "createNotification lNotificationModel senderMetadata' newMessageWithoutContent
      newMessageContent newNotification w =
    (case create lNotificationModel newNotification (n_messageId newNotification) w of
      (Inl err, w') \<Rightarrow> (Rejected (''Cannot save notification to database: '' @ err), w')
    | (Inr notification, w') \<Rightarrow>
        (Resolved \<lparr>e_content = newMessageContent, e_message = newMessageWithoutContent,
                   notificationId = n_id notification, e_senderMetadata = senderMetadata'\<rparr>, w'))"

text \<open>
  \<open>getCreateNotificationActivityHandler\<close>. The codec
  \<open>CreateNotificationActivityInput.decode\<close> is the parameter \<open>decode\<close>, and the imported
  \<open>ulidGenerator\<close> is a parameter too. \<open>indexOf(c) >= 0\<close> on the array of blocked
  channels is membership in the list.
\<close>

definition getCreateNotificationActivityHandler ::
  "'w SenderServiceModel \<Rightarrow> 'w NotificationModel \<Rightarrow> HttpsUrl \<Rightarrow>
   ('i \<Rightarrow> string + CreateNotificationActivityInput) \<Rightarrow> ('w \<Rightarrow> string \<times> 'w) \<Rightarrow>
   'i \<Rightarrow> 'w \<Rightarrow> CreateNotificationActivityResult promise \<times> 'w" where
  "getCreateNotificationActivityHandler lSenderServiceModel lNotificationModel lDefaultWebhookUrl
      decode ulidGenerator input w =
    (case decode input of
      Inl errs \<Rightarrow> (Resolved kind_none, w)
    | Inr decoded \<Rightarrow>
        let createdMessageEvent' = createdMessageEvent decoded;
            storeMessageContentActivityResult' = storeMessageContentActivityResult decoded;
            senderMetadata' = senderMetadata createdMessageEvent';
            newMessageWithoutContent = message createdMessageEvent';
            blocked = r_blockedInboxOrChannels storeMessageContentActivityResult';
            profile = r_profile storeMessageContentActivityResult';
            isEmailEnabledInProfile = isEmailEnabled profile;
            isEmailBlockedForService = (EMAIL \<in> set blocked);
            maybeEmailFromProfile = getEmailAddressFromProfile profile;
            isEmailChannelAllowed = (\<not> requireSecureChannels senderMetadata');
            maybeEmailNotificationAddress =
              (if isEmailEnabledInProfile \<and> \<not> isEmailBlockedForService \<and> isEmailChannelAllowed
               then maybeEmailFromProfile else None);
            isWebhookEnabledInProfile = (isWebhookEnabled profile = Some True);
            isWebhookBlockedForService = (WEBHOOK \<in> set blocked);
            maybeWebhookNotificationUrl =
              (if isWebhookEnabledInProfile \<and> \<not> isWebhookBlockedForService
               then Some \<lparr>url = lDefaultWebhookUrl\<rparr> else None)
        in
        (case createOrUpdate_senderService lSenderServiceModel
                (newSenderService (m_fiscalCode newMessageWithoutContent)
                   (m_senderServiceId newMessageWithoutContent)
                   (serviceVersion createdMessageEvent'))
                (m_fiscalCode newMessageWithoutContent) w of
          (Inl err, w1) \<Rightarrow> (Rejected (''Cannot save sender service id: '' @ err), w1)
        | (Inr saved, w1) \<Rightarrow>
            let noChannelsConfigured =
                  (maybeEmailNotificationAddress = None \<and> maybeWebhookNotificationUrl = None)
            in
            if noChannelsConfigured then (Resolved kind_none, w1)
            else
              (case createNewNotification ulidGenerator
                      (m_fiscalCode newMessageWithoutContent) (m_id newMessageWithoutContent) w1 of
                (fresh, w2) \<Rightarrow>
                  let newNotification =
                        fresh\<lparr>channels_EMAIL := maybeEmailNotificationAddress,
                               channels_WEBHOOK := maybeWebhookNotificationUrl\<rparr>
                  in
                  (case createNotification lNotificationModel senderMetadata'
                          newMessageWithoutContent (content createdMessageEvent')
                          newNotification w2 of
                    (Rejected err, w3) \<Rightarrow> (Rejected err, w3)
                  | (Resolved notificationEvent, w3) \<Rightarrow>
                      (Resolved (kind_some (maybeEmailNotificationAddress \<noteq> None)
                                   (maybeWebhookNotificationUrl \<noteq> None) notificationEvent),
                       w3)))))"

text \<open>What a returned result says about each channel.\<close>

definition hasEmail :: "CreateNotificationActivityResult \<Rightarrow> bool" where
  "hasEmail r = (case r of kind_some e h ev \<Rightarrow> e | kind_none \<Rightarrow> False)"

definition hasWebhook :: "CreateNotificationActivityResult \<Rightarrow> bool" where
  "hasWebhook r = (case r of kind_some e h ev \<Rightarrow> h | kind_none \<Rightarrow> False)"

section \<open>Observing the store calls\<close>

text \<open>
  To speak about which store calls a handler makes, any store is wrapped so that each
  call appends itself, and whether it failed, to a trace carried beside the world. The
  wrapped store answers as the store it wraps.
\<close>

datatype store_call =
  FindOneProfileByFiscalCode string
  | AttachStoredContent string string MessageContent
  | CreateOrUpdateMessage NewMessageWithoutContent string
  | CreateOrUpdateSenderService NewSenderService string
  | CreateNotification NewNotification string

type_synonym trace = "(store_call \<times> bool) list"

definition traced ::
  "store_call \<Rightarrow> ('w \<Rightarrow> ('e + 'a) \<times> 'w) \<Rightarrow> 'w \<times> trace \<Rightarrow> ('e + 'a) \<times> ('w \<times> trace)" where
  "traced c f = (\<lambda>(w, tr). case f w of (r, w') \<Rightarrow> (r, (w', tr @ [(c, isl r)])))"

definition untraced :: "('w \<Rightarrow> 'a \<times> 'w) \<Rightarrow> 'w \<times> trace \<Rightarrow> 'a \<times> ('w \<times> trace)" where
  "untraced f = (\<lambda>(w, tr). case f w of (r, w') \<Rightarrow> (r, (w', tr)))"

definition traced_ProfileModel :: "'w ProfileModel \<Rightarrow> ('w \<times> trace) ProfileModel" where
  "traced_ProfileModel P =
    \<lparr>findOneProfileByFiscalCode =
       (\<lambda>fc. traced (FindOneProfileByFiscalCode fc) (findOneProfileByFiscalCode P fc))\<rparr>"

definition traced_MessageModel :: "('w, 'b) MessageModel \<Rightarrow> ('w \<times> trace, 'b) MessageModel" where
  "traced_MessageModel M =
    \<lparr>attachStoredContent =
       (\<lambda>b i fc c. traced (AttachStoredContent i fc c) (attachStoredContent M b i fc c)),
     createOrUpdate_message =
       (\<lambda>m pk. traced (CreateOrUpdateMessage m pk) (createOrUpdate_message M m pk))\<rparr>"

definition traced_SenderServiceModel ::
  "'w SenderServiceModel \<Rightarrow> ('w \<times> trace) SenderServiceModel" where
  "traced_SenderServiceModel S =
    \<lparr>createOrUpdate_senderService =
       (\<lambda>s pk. traced (CreateOrUpdateSenderService s pk) (createOrUpdate_senderService S s pk))\<rparr>"

definition traced_NotificationModel ::
  "'w NotificationModel \<Rightarrow> ('w \<times> trace) NotificationModel" where
  "traced_NotificationModel N =
    \<lparr>create = (\<lambda>n pk. traced (CreateNotification n pk) (create N n pk))\<rparr>"

fun is_write :: "store_call \<Rightarrow> bool" where
  "is_write (FindOneProfileByFiscalCode fc) = False"
| "is_write (AttachStoredContent i fc c) = True"
| "is_write (CreateOrUpdateMessage m pk) = True"
| "is_write (CreateOrUpdateSenderService s pk) = True"
| "is_write (CreateNotification n pk) = True"

fun is_CreateNotification :: "store_call \<Rightarrow> bool" where
  "is_CreateNotification (CreateNotification n pk) = True"
| "is_CreateNotification c = False"

fun is_CreateOrUpdateSenderService :: "store_call \<Rightarrow> bool" where
  "is_CreateOrUpdateSenderService (CreateOrUpdateSenderService s pk) = True"
| "is_CreateOrUpdateSenderService c = False"

text \<open>The handlers run on wrapped stores from an empty trace.\<close>

definition storageStage ::
  "'w ProfileModel \<Rightarrow> ('w, 'b) MessageModel \<Rightarrow> 'b \<Rightarrow> ('i \<Rightarrow> string + CreatedMessageEvent) \<Rightarrow>
   'i \<Rightarrow> 'w \<Rightarrow> StoreMessageContentActivityResult promise \<times> 'w \<times> trace" where
  "storageStage P M B decode input w =
    getStoreMessageContentActivityHandler (traced_ProfileModel P) (traced_MessageModel M) B
      decode input (w, [])"

definition planningStage ::
  "'w SenderServiceModel \<Rightarrow> 'w NotificationModel \<Rightarrow> HttpsUrl \<Rightarrow>
   ('i \<Rightarrow> string + CreateNotificationActivityInput) \<Rightarrow> ('w \<Rightarrow> string \<times> 'w) \<Rightarrow>
   'i \<Rightarrow> 'w \<Rightarrow> CreateNotificationActivityResult promise \<times> 'w \<times> trace" where
  "planningStage S N u decode g input w =
    getCreateNotificationActivityHandler (traced_SenderServiceModel S)
      (traced_NotificationModel N) u decode (untraced g) input (w, [])"

section \<open>Channel eligibility as the specification writes it\<close>

text \<open>
  The decision matrix of the notification planner in the specification's words, to be
  compared with what the handler computes:
  eligible(EMAIL) = profile.isEmailEnabled AND EMAIL not in blockedChannels AND NOT
  senderMetadata.requireSecureChannels AND profile.email is present;
  eligible(WEBHOOK) = profile.isWebhookEnabled AND WEBHOOK not in blockedChannels.
\<close>

definition spec_eligible_EMAIL ::
  "RetrievedProfile \<Rightarrow> BlockedInboxOrChannelEnum list \<Rightarrow> CreatedMessageEventSenderMetadata \<Rightarrow> bool" where
  "spec_eligible_EMAIL profile blockedChannels sm =
    (isEmailEnabled profile \<and> EMAIL \<notin> set blockedChannels \<and> \<not> requireSecureChannels sm \<and>
     email profile \<noteq> None)"

definition spec_eligible_WEBHOOK :: "RetrievedProfile \<Rightarrow> BlockedInboxOrChannelEnum list \<Rightarrow> bool" where
  "spec_eligible_WEBHOOK profile blockedChannels =
    (isWebhookEnabled profile = Some True \<and> WEBHOOK \<notin> set blockedChannels)"

text \<open>
  The profile gate in the specification's words: not found is PROFILE_NOT_FOUND; found
  but \<open>isInboxEnabled\<close> false is MASTER_INBOX_DISABLED; INBOX in the sender's blocked
  channels is SENDER_BLOCKED; otherwise the gate is passed. The blocked channels of a
  sender are the entry of the mapping senderServiceId to set of Channel, possibly empty.
\<close>

definition spec_blockedChannels :: "RetrievedProfile \<Rightarrow> string \<Rightarrow> BlockedInboxOrChannelEnum list" where
  "spec_blockedChannels profile senderServiceId =
    (case blockedInboxOrChannels profile of
      None \<Rightarrow> []
    | Some bc \<Rightarrow> (case bc senderServiceId of None \<Rightarrow> [] | Some s \<Rightarrow> s))"

definition spec_ProfileGate :: "RetrievedProfile option \<Rightarrow> string \<Rightarrow> FailureReason option" where
  "spec_ProfileGate maybeProfile senderServiceId =
    (case maybeProfile of
      None \<Rightarrow> Some PROFILE_NOT_FOUND
    | Some profile \<Rightarrow>
        if isInboxEnabled profile \<noteq> Some True then Some MASTER_INBOX_DISABLED
        else if INBOX \<in> set (spec_blockedChannels profile senderServiceId)
        then Some SENDER_BLOCKED
        else None)"

section \<open>In-memory stores\<close>

text \<open>
  The stores themselves are not part of the handlers' sources (the handlers only call
  them), so the stores below follow the capability contracts of the specification. None
  of them fails.
\<close>

record memory =
  profiles :: "string \<rightharpoonup> RetrievedProfile"
  blobs :: "string \<times> string \<rightharpoonup> MessageContent"
  messages :: "string \<times> string \<rightharpoonup> NewMessageWithoutContent"
  senderServices :: "string \<times> string \<rightharpoonup> NewSenderService"
  notifications :: "NewNotification list"
  ulidSource :: "nat \<Rightarrow> string"
  ulidCount :: nat

text \<open>
  Modelled from the spec: the ProfileStore, \<open>findByRecipient(id)\<close> gives the profile or
  its absence; the profile store is read-only for the handlers.
\<close>

definition memory_ProfileModel :: "memory ProfileModel" where
  "memory_ProfileModel = \<lparr>findOneProfileByFiscalCode = (\<lambda>fc w. (Inr (profiles w fc), w))\<rparr>"

text \<open>
  Modelled from the spec: the ContentBlobStore, \<open>put(messageId, recipientId, content)\<close>
  writes the content at the location keyed by (id, recipientId), overwriting any prior
  write; and the MessageRecordStore, where \<open>createOrUpdate\<close> replaces the stored message
  of that id and partition by the record it is given (the handler gives it the message
  with \<open>isPending\<close> false).
\<close>

definition memory_MessageModel :: "(memory, unit) MessageModel" where
  "memory_MessageModel =
    \<lparr>attachStoredContent =
       (\<lambda>b i fc c w. (Inr (), w\<lparr>blobs := (blobs w)((i, fc) \<mapsto> c)\<rparr>)),
     createOrUpdate_message =
       (\<lambda>m pk w. (Inr m, w\<lparr>messages := (messages w)((m_id m, pk) \<mapsto> m)\<rparr>))\<rparr>"

text \<open>
  Modelled from the spec: the SenderHistoryStore,
  \<open>upsertVersion(recipientId, senderServiceId, version)\<close>; the stored version of the
  record of (recipientId, senderServiceId) is max(existing, incoming).
\<close>

definition memory_SenderServiceModel :: "memory SenderServiceModel" where
  "memory_SenderServiceModel =
    \<lparr>createOrUpdate_senderService =
       (\<lambda>s pk w.
          let k = (recipientFiscalCode s, serviceId s);
              s' = (case senderServices w k of
                      None \<Rightarrow> s
                    | Some old \<Rightarrow> s\<lparr>version := max (version old) (version s)\<rparr>)
          in (Inr s', w\<lparr>senderServices := (senderServices w)(k \<mapsto> s')\<rparr>))\<rparr>"

text \<open>
  Modelled from the spec: the NotificationStore, \<open>create(record, partitionKey)\<close> adds the
  record and returns it with its id.
\<close>

definition memory_NotificationModel :: "memory NotificationModel" where
  "memory_NotificationModel =
    \<lparr>create = (\<lambda>n pk w. (Inr n, w\<lparr>notifications := notifications w @ [n]\<rparr>))\<rparr>"

text \<open>
  Modelled from the spec: \<open>ulidGenerator\<close> gives a freshly generated id at each call; here
  the next one of the sequence \<open>ulidSource\<close>.
\<close>

definition memory_ulidGenerator :: "memory \<Rightarrow> string \<times> memory" where
  "memory_ulidGenerator w = (ulidSource w (ulidCount w), w\<lparr>ulidCount := Suc (ulidCount w)\<rparr>)"

definition empty_memory :: memory where
  "empty_memory =
    \<lparr>profiles = Map.empty, blobs = Map.empty, messages = Map.empty,
     senderServices = Map.empty, notifications = [], ulidSource = (\<lambda>n. replicate (Suc n) CHR ''U''),
     ulidCount = 0\<rparr>"

text \<open>The two stages on the in-memory stores, with decoded inputs.\<close>

definition memory_storageStage ::
  "CreatedMessageEvent \<Rightarrow> memory \<Rightarrow> StoreMessageContentActivityResult promise \<times> memory" where
  "memory_storageStage ev w =
    getStoreMessageContentActivityHandler memory_ProfileModel memory_MessageModel () Inr ev w"

definition memory_planningStage ::
  "CreateNotificationActivityInput \<Rightarrow> memory \<Rightarrow> CreateNotificationActivityResult promise \<times> memory" where
  "memory_planningStage inp w =
    getCreateNotificationActivityHandler memory_SenderServiceModel memory_NotificationModel
      ''https://example.com/webhook'' Inr memory_ulidGenerator inp w"



section \<open>Concrete inputs\<close>

definition example_message :: NewMessageWithoutContent where
  "example_message =
    \<lparr>m_id = ''MSG1'', m_fiscalCode = ''AAABBB01C02D345D'', m_senderServiceId = ''01234567890'',
     m_senderUserId = ''u1'', m_timeToLiveSeconds = 3600, m_isPending = Some True\<rparr>"

definition example_event :: "nat \<Rightarrow> bool \<Rightarrow> CreatedMessageEvent" where
  "example_event v secure =
    \<lparr>content = ''hello'', message = example_message,
     senderMetadata = \<lparr>requireSecureChannels = secure, serviceName = ''svc''\<rparr>,
     serviceVersion = v\<rparr>"

text \<open>
  The profile of the specification's example: inbox and email enabled, an address, no
  blocked channel, no webhook flag.
\<close>

definition example_profile :: RetrievedProfile where
  "example_profile =
    \<lparr>p_fiscalCode = ''AAABBB01C02D345D'', isInboxEnabled = Some True, isEmailEnabled = True,
     isWebhookEnabled = None, email = Some ''x@y.it'', blockedInboxOrChannels = None\<rparr>"

text \<open>
  A profile that has blocked the inbox for the sender \<open>01234567890\<close> (as the profiles of
  the test generators do) and whose inbox flag is as given.
\<close>

definition blocking_profile :: "bool option \<Rightarrow> RetrievedProfile" where
  "blocking_profile inbox =
    \<lparr>p_fiscalCode = ''AAABBB01C02D345D'', isInboxEnabled = inbox, isEmailEnabled = True,
     isWebhookEnabled = None, email = Some ''x@y.it'',
     blockedInboxOrChannels = Some [''01234567890'' \<mapsto> [INBOX]]\<rparr>"

definition silent_profile :: RetrievedProfile where
  "silent_profile =
    \<lparr>p_fiscalCode = ''AAABBB01C02D345D'', isInboxEnabled = Some True, isEmailEnabled = False,
     isWebhookEnabled = Some False, email = Some ''x@y.it'', blockedInboxOrChannels = None\<rparr>"

text \<open>
  An event of the sender service whose id is \<open>constructor\<close>, a member every plain object
  inherits.
\<close>

definition constructor_event :: CreatedMessageEvent where
  "constructor_event =
    \<lparr>content = ''hello'', message = example_message\<lparr>m_senderServiceId := ''constructor''\<rparr>,
     senderMetadata = \<lparr>requireSecureChannels = False, serviceName = ''svc''\<rparr>,
     serviceVersion = 1\<rparr>"

definition memory_with :: "RetrievedProfile \<Rightarrow> memory" where
  "memory_with p = empty_memory\<lparr>profiles := [p_fiscalCode p \<mapsto> p]\<rparr>"

definition planning_input :: "CreatedMessageEvent \<Rightarrow> RetrievedProfile \<Rightarrow> CreateNotificationActivityInput" where
  "planning_input ev p =
    \<lparr>createdMessageEvent = ev,
     storeMessageContentActivityResult = \<lparr>r_blockedInboxOrChannels = [], r_profile = p\<rparr>\<rparr>"

section \<open>The stages case by case\<close>

lemmas stage_defs =
  storageStage_def planningStage_def getStoreMessageContentActivityHandler_def
  getCreateNotificationActivityHandler_def createNotification_def createNewNotification_def
  traced_def untraced_def traced_ProfileModel_def traced_MessageModel_def
  traced_SenderServiceModel_def traced_NotificationModel_def

lemmas memory_defs =
  memory_storageStage_def memory_planningStage_def memory_ProfileModel_def
  memory_MessageModel_def memory_SenderServiceModel_def memory_NotificationModel_def
  memory_ulidGenerator_def empty_memory_def memory_with_def

lemmas example_defs =
  example_message_def example_event_def example_profile_def blocking_profile_def
  silent_profile_def planning_input_def constructor_event_def

lemmas lookup_defs =
  blockedInboxOrChannels_for_def js_get_def Object_prototype_keys_def spec_blockedChannels_def

text \<open>Observing the calls changes neither the result nor the world.\<close>

lemma storageStage_result:
  "(fst (storageStage P M B decode i w), fst (snd (storageStage P M B decode i w))) =
   getStoreMessageContentActivityHandler P M B decode i w"
  by (simp add: stage_defs Let_def
      split: sum.splits option.splits prod.splits blocked_value.splits)

lemma planningStage_result:
  "(fst (planningStage S N u decode g i w), fst (snd (planningStage S N u decode g i w))) =
   getCreateNotificationActivityHandler S N u decode g i w"
  by (cases "decode i")
    (auto simp add: stage_defs Let_def split: sum.splits prod.splits promise.splits)

lemma storageStage_undecodable:
  "decode i = Inl e \<Longrightarrow> storageStage P M B decode i w = (Resolved (FAILURE BAD_DATA), w, [])"
  by (simp add: stage_defs)


lemma storageStage_denied:
  assumes "decode i = Inr ev"
    and "findOneProfileByFiscalCode P (m_fiscalCode (message ev)) w = (Inr maybeProfile, w1)"
    and "spec_ProfileGate maybeProfile (m_senderServiceId (message ev)) = Some reason"
  shows "storageStage P M B decode i w =
    (Resolved (FAILURE reason), w1,
     [(FindOneProfileByFiscalCode (m_fiscalCode (message ev)), False)])"
  using assms
  by (auto simp add: stage_defs Let_def spec_ProfileGate_def lookup_defs
      split: option.splits if_splits)


text \<open>The run of the sender service \<open>constructor\<close>: a TypeError and no failed store call.\<close>

lemma constructor_run:
  "storageStage memory_ProfileModel memory_MessageModel () Inr constructor_event
     (memory_with (blocking_profile (Some True))) =
   (Rejected ''TypeError: blockedInboxOrChannels.has is not a function'',
    memory_with (blocking_profile (Some True)),
    [(FindOneProfileByFiscalCode ''AAABBB01C02D345D'', False)])"
  by (simp add: stage_defs Let_def lookup_defs memory_defs example_defs)

lemma planningStage_undecodable:
  "decode i = Inl e \<Longrightarrow> planningStage S N u decode g i w = (Resolved kind_none, w, [])"
  by (simp add: stage_defs)

lemma planningStage_upsert_failed:
  assumes "decode i = Inr inp"
    and "createOrUpdate_senderService S
          (newSenderService (m_fiscalCode (message (createdMessageEvent inp)))
             (m_senderServiceId (message (createdMessageEvent inp)))
             (serviceVersion (createdMessageEvent inp)))
          (m_fiscalCode (message (createdMessageEvent inp))) w = (Inl e, w1)"
  shows "planningStage S N u decode g i w =
    (Rejected (''Cannot save sender service id: '' @ e), w1,
     [(CreateOrUpdateSenderService
         (newSenderService (m_fiscalCode (message (createdMessageEvent inp)))
            (m_senderServiceId (message (createdMessageEvent inp)))
            (serviceVersion (createdMessageEvent inp)))
         (m_fiscalCode (message (createdMessageEvent inp))), True)])"
  using assms by (simp add: stage_defs Let_def)

lemma planningStage_no_channel:
  assumes "decode i = Inr inp"
    and "createOrUpdate_senderService S
          (newSenderService (m_fiscalCode (message (createdMessageEvent inp)))
             (m_senderServiceId (message (createdMessageEvent inp)))
             (serviceVersion (createdMessageEvent inp)))
          (m_fiscalCode (message (createdMessageEvent inp))) w = (Inr s, w1)"
    and "\<not> spec_eligible_EMAIL (r_profile (storeMessageContentActivityResult inp))
           (r_blockedInboxOrChannels (storeMessageContentActivityResult inp))
           (senderMetadata (createdMessageEvent inp))"
    and "\<not> spec_eligible_WEBHOOK (r_profile (storeMessageContentActivityResult inp))
           (r_blockedInboxOrChannels (storeMessageContentActivityResult inp))"
  shows "planningStage S N u decode g i w =
    (Resolved kind_none, w1,
     [(CreateOrUpdateSenderService
         (newSenderService (m_fiscalCode (message (createdMessageEvent inp)))
            (m_senderServiceId (message (createdMessageEvent inp)))
            (serviceVersion (createdMessageEvent inp)))
         (m_fiscalCode (message (createdMessageEvent inp))), False)])"
  using assms
  by (auto simp add: stage_defs Let_def spec_eligible_EMAIL_def spec_eligible_WEBHOOK_def
      getEmailAddressFromProfile_def)

lemma planningStage_some_channel:
  assumes "decode i = Inr inp"
    and "createOrUpdate_senderService S
          (newSenderService (m_fiscalCode (message (createdMessageEvent inp)))
             (m_senderServiceId (message (createdMessageEvent inp)))
             (serviceVersion (createdMessageEvent inp)))
          (m_fiscalCode (message (createdMessageEvent inp))) w = (Inr s, w1)"
    and "spec_eligible_EMAIL (r_profile (storeMessageContentActivityResult inp))
           (r_blockedInboxOrChannels (storeMessageContentActivityResult inp))
           (senderMetadata (createdMessageEvent inp)) \<or>
         spec_eligible_WEBHOOK (r_profile (storeMessageContentActivityResult inp))
           (r_blockedInboxOrChannels (storeMessageContentActivityResult inp))"
  shows "\<exists>n failed w3 r. planningStage S N u decode g i w =
    (r, w3,
     [(CreateOrUpdateSenderService
         (newSenderService (m_fiscalCode (message (createdMessageEvent inp)))
            (m_senderServiceId (message (createdMessageEvent inp)))
            (serviceVersion (createdMessageEvent inp)))
         (m_fiscalCode (message (createdMessageEvent inp))), False),
      (CreateNotification n (m_id (message (createdMessageEvent inp))), failed)]) \<and>
    (if failed then is_Rejected r
     else \<exists>ev. r = Resolved (kind_some
       (spec_eligible_EMAIL (r_profile (storeMessageContentActivityResult inp))
           (r_blockedInboxOrChannels (storeMessageContentActivityResult inp))
           (senderMetadata (createdMessageEvent inp)))
       (spec_eligible_WEBHOOK (r_profile (storeMessageContentActivityResult inp))
           (r_blockedInboxOrChannels (storeMessageContentActivityResult inp))) ev))"
  using assms
  by (auto simp add: stage_defs Let_def spec_eligible_EMAIL_def spec_eligible_WEBHOOK_def
      getEmailAddressFromProfile_def split: prod.splits sum.splits)

section \<open>Undecodable input\<close>

text \<open>
  C9. An input that fails to decode makes the storage stage return FAILURE(BAD_DATA) and
  the planning stage return NONE. Neither throws, neither calls a store (the trace of
  store calls is empty) and the world is left as it was.
\<close>

theorem undecodable_input_is_terminal:
  assumes "decodeS i = Inl e" and "decodeP j = Inl e'"
  shows "storageStage P M B decodeS i w = (Resolved (FAILURE BAD_DATA), w, []) \<and>
         planningStage S N u decodeP g j v = (Resolved kind_none, v, [])"
  using assms by (simp add: storageStage_undecodable planningStage_undecodable)

theorem undecodable_input_is_terminal_witness:
  "storageStage memory_ProfileModel memory_MessageModel () (\<lambda>x::unit. Inl ''not an event'') ()
     empty_memory = (Resolved (FAILURE BAD_DATA), empty_memory, []) \<and>
   planningStage memory_SenderServiceModel memory_NotificationModel ''https://example.com/webhook''
     (\<lambda>x::unit. Inl ''not an input'') memory_ulidGenerator () empty_memory =
     (Resolved kind_none, empty_memory, [])"
  using undecodable_input_is_terminal [of "\<lambda>x::unit. Inl ''not an event''" "()" "''not an event''"
      "\<lambda>x::unit. Inl ''not an input''" "()" "''not an input''"
      memory_ProfileModel memory_MessageModel "()" empty_memory
      memory_SenderServiceModel memory_NotificationModel "''https://example.com/webhook''"
      memory_ulidGenerator empty_memory]
  by simp

section \<open>The profile gate\<close>

text \<open>
  C8. When the input decodes and the profile store answers that the recipient has no
  profile, the storage stage returns FAILURE(PROFILE_NOT_FOUND); the profile query is the
  only store call it makes, so it writes neither to the blob store nor to the message
  store, and the world is the one the query left.
\<close>

theorem missing_profile_no_writes:
  assumes "decode i = Inr ev"
    and "findOneProfileByFiscalCode P (m_fiscalCode (message ev)) w = (Inr None, w1)"
  shows "storageStage P M B decode i w =
      (Resolved (FAILURE PROFILE_NOT_FOUND), w1,
       [(FindOneProfileByFiscalCode (m_fiscalCode (message ev)), False)]) \<and>
    \<not> (\<exists>c \<in> set (snd (snd (storageStage P M B decode i w))). is_write (fst c))"
proof -
  have "spec_ProfileGate None (m_senderServiceId (message ev)) = Some PROFILE_NOT_FOUND"
    by (simp add: spec_ProfileGate_def)
  from storageStage_denied [where decode = decode and i = i and M = M and B = B, OF assms this]
  show ?thesis by simp
qed

theorem missing_profile_no_writes_witness:
  "storageStage memory_ProfileModel memory_MessageModel () Inr (example_event 1 False) empty_memory =
      (Resolved (FAILURE PROFILE_NOT_FOUND), empty_memory,
       [(FindOneProfileByFiscalCode ''AAABBB01C02D345D'', False)])"
proof -
  have d: "Inr (example_event 1 False) = (Inr (example_event 1 False) :: string + CreatedMessageEvent)"
    by simp
  have f: "findOneProfileByFiscalCode memory_ProfileModel
             (m_fiscalCode (message (example_event 1 False))) empty_memory = (Inr None, empty_memory)"
    by (simp add: memory_defs)
  from missing_profile_no_writes [where decode = Inr and M = memory_MessageModel and B = "()", OF d f]
  show ?thesis
    by (simp add: example_defs)
qed

text \<open>
  C5, as amended. When the input decodes, the profile store answers with a profile whose
  \<open>isInboxEnabled\<close> is true, and the profile's \<open>blockedInboxOrChannels\<close> has an entry for
  the sender service of the message that contains INBOX, the storage stage returns
  FAILURE(SENDER_BLOCKED) after the profile query alone.
\<close>

theorem sender_blocked_when_inbox_enabled:
  assumes "decode i = Inr ev"
    and "findOneProfileByFiscalCode P (m_fiscalCode (message ev)) w = (Inr (Some profile), w1)"
    and "isInboxEnabled profile = Some True"
    and "blockedInboxOrChannels profile = Some bc"
    and "bc (m_senderServiceId (message ev)) = Some channels"
    and "INBOX \<in> set channels"
  shows "storageStage P M B decode i w =
      (Resolved (FAILURE SENDER_BLOCKED), w1,
       [(FindOneProfileByFiscalCode (m_fiscalCode (message ev)), False)])"
proof -
  have "spec_ProfileGate (Some profile) (m_senderServiceId (message ev)) = Some SENDER_BLOCKED"
    using assms(3-6) by (simp add: spec_ProfileGate_def spec_blockedChannels_def)
  from storageStage_denied [where decode = decode and i = i and M = M and B = B, OF assms(1,2) this]
  show ?thesis .
qed

theorem sender_blocked_when_inbox_enabled_witness:
  "storageStage memory_ProfileModel memory_MessageModel () Inr (example_event 1 False)
     (memory_with (blocking_profile (Some True))) =
      (Resolved (FAILURE SENDER_BLOCKED), memory_with (blocking_profile (Some True)),
       [(FindOneProfileByFiscalCode ''AAABBB01C02D345D'', False)])"
proof -
  have d: "Inr (example_event 1 False) = (Inr (example_event 1 False) :: string + CreatedMessageEvent)"
    by simp
  have f: "findOneProfileByFiscalCode memory_ProfileModel
             (m_fiscalCode (message (example_event 1 False)))
             (memory_with (blocking_profile (Some True))) =
           (Inr (Some (blocking_profile (Some True))), memory_with (blocking_profile (Some True)))"
    by (simp add: memory_defs example_defs)
  have e: "isInboxEnabled (blocking_profile (Some True)) = Some True"
    by (simp add: example_defs)
  have o: "blockedInboxOrChannels (blocking_profile (Some True)) =
      Some [''01234567890'' \<mapsto> [INBOX]]"
    by (simp add: example_defs)
  have b: "[''01234567890'' \<mapsto> [INBOX]] (m_senderServiceId (message (example_event 1 False))) =
      Some [INBOX]"
    by (simp add: example_defs)
  have m: "INBOX \<in> set [INBOX]"
    by simp
  from sender_blocked_when_inbox_enabled
    [where decode = Inr and M = memory_MessageModel and B = "()", OF d f e o b m]
  show ?thesis
    by (simp add: example_defs)
qed

text \<open>
  The claim without the condition on \<open>isInboxEnabled\<close> fails: for a profile that has
  blocked INBOX for the sender and whose \<open>isInboxEnabled\<close> is false, the handler tests the
  inbox flag first and returns FAILURE(MASTER_INBOX_DISABLED).
\<close>

theorem sender_blocked_counterexample:
  "blockedInboxOrChannels_for (blocking_profile (Some False))
      (m_senderServiceId (message (example_event 1 False))) = JsSet [INBOX] \<and>
   fst (memory_storageStage (example_event 1 False) (memory_with (blocking_profile (Some False)))) =
     Resolved (FAILURE MASTER_INBOX_DISABLED) \<and>
   fst (memory_storageStage (example_event 1 False) (memory_with (blocking_profile (Some False)))) \<noteq>
     Resolved (FAILURE SENDER_BLOCKED)"
  by (simp add: getStoreMessageContentActivityHandler_def memory_defs example_defs lookup_defs)

text \<open>
  C10. Whatever the input and the stores do, the storage stage never returns
  FAILURE(PERMANENT_ERROR): a FAILURE it returns has one of the reasons BAD_DATA,
  PROFILE_NOT_FOUND, MASTER_INBOX_DISABLED, SENDER_BLOCKED.
\<close>

theorem permanent_error_never_returned:
  "fst (getStoreMessageContentActivityHandler P M B decode i w) \<noteq> Resolved (FAILURE PERMANENT_ERROR) \<and>
   (fst (getStoreMessageContentActivityHandler P M B decode i w) = Resolved (FAILURE reason) \<longrightarrow>
      reason \<in> {BAD_DATA, PROFILE_NOT_FOUND, MASTER_INBOX_DISABLED, SENDER_BLOCKED})"
  by (auto simp: getStoreMessageContentActivityHandler_def Let_def
      split: sum.splits option.splits prod.splits if_splits blocked_value.splits)

theorem permanent_error_never_returned_witness:
  "fst (memory_storageStage (example_event 1 False) (memory_with (blocking_profile None))) =
     Resolved (FAILURE MASTER_INBOX_DISABLED) \<and>
   MASTER_INBOX_DISABLED \<in> {BAD_DATA, PROFILE_NOT_FOUND, MASTER_INBOX_DISABLED, SENDER_BLOCKED}"
proof -
  have r: "fst (getStoreMessageContentActivityHandler memory_ProfileModel memory_MessageModel ()
             Inr (example_event 1 False) (memory_with (blocking_profile None))) =
           Resolved (FAILURE MASTER_INBOX_DISABLED)"
    by (simp add: getStoreMessageContentActivityHandler_def memory_defs example_defs)
  from permanent_error_never_returned [of memory_ProfileModel memory_MessageModel "()" Inr
      "example_event 1 False" "memory_with (blocking_profile None)" MASTER_INBOX_DISABLED] r
  show ?thesis by (simp add: memory_storageStage_def)
qed

section \<open>The planning stage's decisions\<close>

text \<open>
  C1. For every decoded input of the planning stage and every result \<open>r\<close> it returns: the
  email channel is activated (\<open>r\<close> is SOME with \<open>hasEmail\<close> true) if and only if
  \<open>profile.isEmailEnabled\<close> holds, EMAIL is not among the blocked channels,
  \<open>senderMetadata.requireSecureChannels\<close> is false and \<open>profile.email\<close> is present; the
  webhook channel is activated (\<open>hasWebhook\<close> true) if and only if
  \<open>profile.isWebhookEnabled\<close> is true and WEBHOOK is not among the blocked channels, so
  \<open>requireSecureChannels\<close> has no part in the webhook decision.
\<close>

theorem channel_eligibility_matrix:
  assumes "decode i = Inr inp"
    and "fst (getCreateNotificationActivityHandler S N u decode g i w) = Resolved r"
  shows "(hasEmail r \<longleftrightarrow>
            isEmailEnabled (r_profile (storeMessageContentActivityResult inp)) \<and>
            EMAIL \<notin> set (r_blockedInboxOrChannels (storeMessageContentActivityResult inp)) \<and>
            \<not> requireSecureChannels (senderMetadata (createdMessageEvent inp)) \<and>
            email (r_profile (storeMessageContentActivityResult inp)) \<noteq> None) \<and>
         (hasWebhook r \<longleftrightarrow>
            isWebhookEnabled (r_profile (storeMessageContentActivityResult inp)) = Some True \<and>
            WEBHOOK \<notin> set (r_blockedInboxOrChannels (storeMessageContentActivityResult inp)))"
  using assms
  by (auto simp add: getCreateNotificationActivityHandler_def createNotification_def
      createNewNotification_def Let_def hasEmail_def hasWebhook_def getEmailAddressFromProfile_def
      split: sum.splits prod.splits if_splits promise.splits)

theorem channel_eligibility_matrix_witness:
  "fst (memory_planningStage (planning_input (example_event 3 False) example_profile) empty_memory) =
     Resolved (kind_some True False
       \<lparr>e_content = ''hello'', e_message = example_message, notificationId = ''U'',
        e_senderMetadata = \<lparr>requireSecureChannels = False, serviceName = ''svc''\<rparr>\<rparr>) \<and>
   hasEmail (kind_some True False
       \<lparr>e_content = ''hello'', e_message = example_message, notificationId = ''U'',
        e_senderMetadata = \<lparr>requireSecureChannels = False, serviceName = ''svc''\<rparr>\<rparr>) \<and>
   \<not> hasWebhook (kind_some True False
       \<lparr>e_content = ''hello'', e_message = example_message, notificationId = ''U'',
        e_senderMetadata = \<lparr>requireSecureChannels = False, serviceName = ''svc''\<rparr>\<rparr>)"
proof -
  let ?inp = "planning_input (example_event 3 False) example_profile"
  let ?r = "kind_some True False
       \<lparr>e_content = ''hello'', e_message = example_message, notificationId = ''U'',
        e_senderMetadata = \<lparr>requireSecureChannels = False, serviceName = ''svc''\<rparr>\<rparr>"
  have d: "Inr ?inp = (Inr ?inp :: string + CreateNotificationActivityInput)"
    by simp
  have r: "fst (getCreateNotificationActivityHandler memory_SenderServiceModel
              memory_NotificationModel ''https://example.com/webhook'' Inr memory_ulidGenerator
              ?inp empty_memory) = Resolved ?r"
    by (simp add: getCreateNotificationActivityHandler_def createNotification_def
        createNewNotification_def getEmailAddressFromProfile_def newSenderService_def Let_def
        memory_defs example_defs)
  from channel_eligibility_matrix [where decode = Inr, OF d r] r
  show ?thesis
    by (simp add: memory_planningStage_def example_defs)
qed

text \<open>A run with no eligible channel, on the in-memory stores.\<close>

lemma silent_run:
  "planningStage memory_SenderServiceModel memory_NotificationModel ''https://example.com/webhook''
     Inr memory_ulidGenerator (planning_input (example_event 3 False) silent_profile) empty_memory =
   (Resolved kind_none,
    empty_memory\<lparr>senderServices :=
      [(''AAABBB01C02D345D'', ''01234567890'') \<mapsto>
        \<lparr>recipientFiscalCode = ''AAABBB01C02D345D'', serviceId = ''01234567890'', version = 3\<rparr>]\<rparr>,
    [(CreateOrUpdateSenderService
        \<lparr>recipientFiscalCode = ''AAABBB01C02D345D'', serviceId = ''01234567890'', version = 3\<rparr>
        ''AAABBB01C02D345D'', False)])"
  by (simp add: stage_defs newSenderService_def getEmailAddressFromProfile_def Let_def
      memory_defs example_defs)

text \<open>
  C3. Every run of the planning stage calls the notification store at most once, and
  only for a decoded input with at least one eligible channel. When neither email nor
  webhook is eligible the notification store is not called, and the stage returns NONE
  (or throws, when the upsert of the sender history, its only store call, has failed).
\<close>

theorem notification_written_at_most_once:
  "length (filter (\<lambda>c. is_CreateNotification (fst c))
      (snd (snd (planningStage S N u decode g i w)))) \<le> 1 \<and>
   ((\<exists>c \<in> set (snd (snd (planningStage S N u decode g i w))). is_CreateNotification (fst c)) \<longrightarrow>
      (\<exists>inp. decode i = Inr inp \<and>
         (spec_eligible_EMAIL (r_profile (storeMessageContentActivityResult inp))
            (r_blockedInboxOrChannels (storeMessageContentActivityResult inp))
            (senderMetadata (createdMessageEvent inp)) \<or>
          spec_eligible_WEBHOOK (r_profile (storeMessageContentActivityResult inp))
            (r_blockedInboxOrChannels (storeMessageContentActivityResult inp))))) \<and>
   (decode i = Inr inp \<and>
    \<not> spec_eligible_EMAIL (r_profile (storeMessageContentActivityResult inp))
         (r_blockedInboxOrChannels (storeMessageContentActivityResult inp))
         (senderMetadata (createdMessageEvent inp)) \<and>
    \<not> spec_eligible_WEBHOOK (r_profile (storeMessageContentActivityResult inp))
         (r_blockedInboxOrChannels (storeMessageContentActivityResult inp)) \<longrightarrow>
      \<not> (\<exists>c \<in> set (snd (snd (planningStage S N u decode g i w))). is_CreateNotification (fst c)) \<and>
      (fst (planningStage S N u decode g i w) = Resolved kind_none \<or>
       is_Rejected (fst (planningStage S N u decode g i w)) \<and>
       (\<exists>s pk. snd (snd (planningStage S N u decode g i w)) =
          [(CreateOrUpdateSenderService s pk, True)])))"
proof (cases "decode i")
  case (Inl e)
  then show ?thesis by (simp add: planningStage_undecodable)
next
  case (Inr d)
  let ?rec = "newSenderService (m_fiscalCode (message (createdMessageEvent d)))
             (m_senderServiceId (message (createdMessageEvent d)))
             (serviceVersion (createdMessageEvent d))"
  let ?pk = "m_fiscalCode (message (createdMessageEvent d))"
  obtain res w1 where up: "createOrUpdate_senderService S ?rec ?pk w = (res, w1)"
    by (cases "createOrUpdate_senderService S ?rec ?pk w")
  show ?thesis
  proof (cases res)
    case (Inl e)
    with up have "createOrUpdate_senderService S ?rec ?pk w = (Inl e, w1)" by simp
    from planningStage_upsert_failed [where decode = decode and i = i and N = N and u = u and g = g,
        OF Inr this]
    show ?thesis using Inr by simp
  next
    case (Inr s)
    with up have ok: "createOrUpdate_senderService S ?rec ?pk w = (Inr s, w1)" by simp
    show ?thesis
    proof (cases "spec_eligible_EMAIL (r_profile (storeMessageContentActivityResult d))
           (r_blockedInboxOrChannels (storeMessageContentActivityResult d))
           (senderMetadata (createdMessageEvent d)) \<or>
         spec_eligible_WEBHOOK (r_profile (storeMessageContentActivityResult d))
           (r_blockedInboxOrChannels (storeMessageContentActivityResult d))")
      case True
      from planningStage_some_channel
        [where decode = decode and i = i and N = N and u = u and g = g, OF \<open>decode i = Inr d\<close> ok True]
      show ?thesis using \<open>decode i = Inr d\<close> True by auto
    next
      case False
      then have ne: "\<not> spec_eligible_EMAIL (r_profile (storeMessageContentActivityResult d))
           (r_blockedInboxOrChannels (storeMessageContentActivityResult d))
           (senderMetadata (createdMessageEvent d))"
        and nw: "\<not> spec_eligible_WEBHOOK (r_profile (storeMessageContentActivityResult d))
           (r_blockedInboxOrChannels (storeMessageContentActivityResult d))"
        by simp_all
      from planningStage_no_channel
        [where decode = decode and i = i and N = N and u = u and g = g,
          OF \<open>decode i = Inr d\<close> ok ne nw]
      show ?thesis using \<open>decode i = Inr d\<close> by simp
    qed
  qed
qed

theorem notification_written_at_most_once_witness:
  "\<not> spec_eligible_EMAIL silent_profile [] \<lparr>requireSecureChannels = False, serviceName = ''svc''\<rparr> \<and>
   \<not> spec_eligible_WEBHOOK silent_profile [] \<and>
   fst (planningStage memory_SenderServiceModel memory_NotificationModel
     ''https://example.com/webhook'' Inr memory_ulidGenerator
     (planning_input (example_event 3 False) silent_profile) empty_memory) = Resolved kind_none \<and>
   length (filter (\<lambda>c. is_CreateNotification (fst c))
     (snd (snd (planningStage memory_SenderServiceModel memory_NotificationModel
       ''https://example.com/webhook'' Inr memory_ulidGenerator
       (planning_input (example_event 3 False) silent_profile) empty_memory)))) = 0 \<and>
   notifications (fst (snd (planningStage memory_SenderServiceModel memory_NotificationModel
       ''https://example.com/webhook'' Inr memory_ulidGenerator
       (planning_input (example_event 3 False) silent_profile) empty_memory))) = []"
proof -
  have e: "\<not> spec_eligible_EMAIL silent_profile []
      \<lparr>requireSecureChannels = False, serviceName = ''svc''\<rparr>"
    by (simp add: spec_eligible_EMAIL_def silent_profile_def)
  have h: "\<not> spec_eligible_WEBHOOK silent_profile []"
    by (simp add: spec_eligible_WEBHOOK_def silent_profile_def)
  have n: "notifications (fst (snd (planningStage memory_SenderServiceModel memory_NotificationModel
       ''https://example.com/webhook'' Inr memory_ulidGenerator
       (planning_input (example_event 3 False) silent_profile) empty_memory))) = []"
    by (simp only: silent_run) (simp add: empty_memory_def)
  from notification_written_at_most_once
    [of memory_SenderServiceModel memory_NotificationModel "''https://example.com/webhook''"
      Inr memory_ulidGenerator "planning_input (example_event 3 False) silent_profile"
      empty_memory "planning_input (example_event 3 False) silent_profile"] e h n
  show ?thesis by (simp add: silent_run)
qed

text \<open>
  C4. For every decoded input the planning stage upserts the sender history exactly once,
  as its first store call and whatever the channels' eligibility is; when the result is
  NONE that upsert is the only store call, so the notification store is not written.
\<close>

theorem sender_history_upserted_exactly_once:
  assumes "decode i = Inr inp"
  shows "length (filter (\<lambda>c. is_CreateOrUpdateSenderService (fst c))
           (snd (snd (planningStage S N u decode g i w)))) = 1 \<and>
    (\<exists>failed rest. snd (snd (planningStage S N u decode g i w)) =
        (CreateOrUpdateSenderService
           (newSenderService (m_fiscalCode (message (createdMessageEvent inp)))
              (m_senderServiceId (message (createdMessageEvent inp)))
              (serviceVersion (createdMessageEvent inp)))
           (m_fiscalCode (message (createdMessageEvent inp))), failed) # rest) \<and>
    (fst (planningStage S N u decode g i w) = Resolved kind_none \<longrightarrow>
       snd (snd (planningStage S N u decode g i w)) =
        [(CreateOrUpdateSenderService
           (newSenderService (m_fiscalCode (message (createdMessageEvent inp)))
              (m_senderServiceId (message (createdMessageEvent inp)))
              (serviceVersion (createdMessageEvent inp)))
           (m_fiscalCode (message (createdMessageEvent inp))), False)])"
proof -
  let ?rec = "newSenderService (m_fiscalCode (message (createdMessageEvent inp)))
             (m_senderServiceId (message (createdMessageEvent inp)))
             (serviceVersion (createdMessageEvent inp))"
  let ?pk = "m_fiscalCode (message (createdMessageEvent inp))"
  obtain res w1 where up: "createOrUpdate_senderService S ?rec ?pk w = (res, w1)"
    by (cases "createOrUpdate_senderService S ?rec ?pk w")
  show ?thesis
  proof (cases res)
    case (Inl e)
    with up have "createOrUpdate_senderService S ?rec ?pk w = (Inl e, w1)" by simp
    from planningStage_upsert_failed [where decode = decode and i = i and N = N and u = u and g = g,
        OF assms this]
    show ?thesis by auto
  next
    case (Inr s)
    with up have ok: "createOrUpdate_senderService S ?rec ?pk w = (Inr s, w1)" by simp
    show ?thesis
    proof (cases "spec_eligible_EMAIL (r_profile (storeMessageContentActivityResult inp))
           (r_blockedInboxOrChannels (storeMessageContentActivityResult inp))
           (senderMetadata (createdMessageEvent inp)) \<or>
         spec_eligible_WEBHOOK (r_profile (storeMessageContentActivityResult inp))
           (r_blockedInboxOrChannels (storeMessageContentActivityResult inp))")
      case True
      from planningStage_some_channel
        [where decode = decode and i = i and N = N and u = u and g = g, OF assms ok True]
      show ?thesis by (auto split: if_splits)
    next
      case False
      then have ne: "\<not> spec_eligible_EMAIL (r_profile (storeMessageContentActivityResult inp))
           (r_blockedInboxOrChannels (storeMessageContentActivityResult inp))
           (senderMetadata (createdMessageEvent inp))"
        and nw: "\<not> spec_eligible_WEBHOOK (r_profile (storeMessageContentActivityResult inp))
           (r_blockedInboxOrChannels (storeMessageContentActivityResult inp))"
        by simp_all
      from planningStage_no_channel
        [where decode = decode and i = i and N = N and u = u and g = g, OF assms ok ne nw]
      show ?thesis by auto
    qed
  qed
qed

theorem sender_history_upserted_exactly_once_witness:
  "fst (planningStage memory_SenderServiceModel memory_NotificationModel
     ''https://example.com/webhook'' Inr memory_ulidGenerator
     (planning_input (example_event 3 False) silent_profile) empty_memory) = Resolved kind_none \<and>
   snd (snd (planningStage memory_SenderServiceModel memory_NotificationModel
     ''https://example.com/webhook'' Inr memory_ulidGenerator
     (planning_input (example_event 3 False) silent_profile) empty_memory)) =
     [(CreateOrUpdateSenderService
        \<lparr>recipientFiscalCode = ''AAABBB01C02D345D'', serviceId = ''01234567890'', version = 3\<rparr>
        ''AAABBB01C02D345D'', False)] \<and>
   length (filter (\<lambda>c. is_CreateOrUpdateSenderService (fst c))
     (snd (snd (planningStage memory_SenderServiceModel memory_NotificationModel
       ''https://example.com/webhook'' Inr memory_ulidGenerator
       (planning_input (example_event 3 False) silent_profile) empty_memory)))) = 1"
proof -
  have d: "Inr (planning_input (example_event 3 False) silent_profile) =
      (Inr (planning_input (example_event 3 False) silent_profile)
        :: string + CreateNotificationActivityInput)"
    by simp
  from sender_history_upserted_exactly_once
    [where decode = Inr and S = memory_SenderServiceModel and N = memory_NotificationModel
      and u = "''https://example.com/webhook''" and g = memory_ulidGenerator and w = empty_memory,
      OF d]
  show ?thesis by (simp add: silent_run)
qed

section \<open>Failures returned and failures thrown\<close>





section \<open>Repeated runs on the in-memory stores\<close>

lemma memory_planningStage_senderServices:
  "senderServices (snd (memory_planningStage inp w)) =
   (senderServices w)
     ((m_fiscalCode (message (createdMessageEvent inp)),
       m_senderServiceId (message (createdMessageEvent inp))) \<mapsto>
      \<lparr>recipientFiscalCode = m_fiscalCode (message (createdMessageEvent inp)),
       serviceId = m_senderServiceId (message (createdMessageEvent inp)),
       version =
         (case senderServices w
                 (m_fiscalCode (message (createdMessageEvent inp)),
                  m_senderServiceId (message (createdMessageEvent inp))) of
            None \<Rightarrow> serviceVersion (createdMessageEvent inp)
          | Some old \<Rightarrow> max (version old) (serviceVersion (createdMessageEvent inp)))\<rparr>)"
  by (simp add: memory_planningStage_def getCreateNotificationActivityHandler_def
      createNotification_def createNewNotification_def newSenderService_def
      memory_SenderServiceModel_def memory_NotificationModel_def memory_ulidGenerator_def Let_def
      split: option.splits)

text \<open>
  C6. On the sender-history store that keeps max(existing, incoming), two runs of the
  planning stage for the same recipient and sender service leave the record at the
  greatest of the version stored before and the two versions of the events; with no
  record before and the versions 3 then 1, at version 3.
\<close>

theorem sender_history_version_monotone:
  assumes "m_fiscalCode (message (createdMessageEvent a)) = fc"
    and "m_senderServiceId (message (createdMessageEvent a)) = sid"
    and "m_fiscalCode (message (createdMessageEvent b)) = fc"
    and "m_senderServiceId (message (createdMessageEvent b)) = sid"
  shows "map_option version
           (senderServices (snd (memory_planningStage b (snd (memory_planningStage a w)))) (fc, sid)) =
         Some (max (max (case senderServices w (fc, sid) of None \<Rightarrow> 0 | Some old \<Rightarrow> version old)
                        (serviceVersion (createdMessageEvent a)))
                   (serviceVersion (createdMessageEvent b)))"
  using assms by (simp add: memory_planningStage_senderServices split: option.splits)

theorem sender_history_version_monotone_witness:
  "map_option version
     (senderServices
        (snd (memory_planningStage (planning_input (example_event 1 False) example_profile)
           (snd (memory_planningStage (planning_input (example_event 3 False) example_profile)
              empty_memory))))
        (''AAABBB01C02D345D'', ''01234567890'')) = Some 3"
  using sender_history_version_monotone
    [of "planning_input (example_event 3 False) example_profile" "''AAABBB01C02D345D''"
      "''01234567890''" "planning_input (example_event 1 False) example_profile" empty_memory]
  by (simp add: example_defs empty_memory_def)

lemma memory_storageStage_profiles:
  "profiles (snd (memory_storageStage ev w)) = profiles w"
  by (simp add: memory_storageStage_def getStoreMessageContentActivityHandler_def
      memory_ProfileModel_def memory_MessageModel_def Let_def
      split: option.splits blocked_value.splits)

text \<open>
  C7. On the overwriting blob store and message store, running the storage stage again
  with the same event on the state the first run left gives the same result and the same
  state as the first run; after a successful run the blob of (message id, recipient) is
  the event's content and the stored message has \<open>isPending\<close> false.
\<close>

theorem storage_idempotent:
  "memory_storageStage ev (snd (memory_storageStage ev w)) = memory_storageStage ev w \<and>
   (fst (memory_storageStage ev w) = Resolved (SUCCESS r) \<longrightarrow>
      blobs (snd (memory_storageStage ev w)) (m_id (message ev), m_fiscalCode (message ev)) =
        Some (content ev) \<and>
      map_option m_isPending
        (messages (snd (memory_storageStage ev w)) (m_id (message ev), m_fiscalCode (message ev))) =
        Some (Some False))"
  by (auto simp add: memory_storageStage_def getStoreMessageContentActivityHandler_def
      memory_ProfileModel_def memory_MessageModel_def Let_def
      split: option.splits blocked_value.splits)

theorem storage_idempotent_witness:
  "fst (memory_storageStage (example_event 1 False) (memory_with example_profile)) =
     Resolved (SUCCESS \<lparr>r_blockedInboxOrChannels = [], r_profile = example_profile\<rparr>) \<and>
   memory_storageStage (example_event 1 False)
     (snd (memory_storageStage (example_event 1 False) (memory_with example_profile))) =
   memory_storageStage (example_event 1 False) (memory_with example_profile) \<and>
   blobs (snd (memory_storageStage (example_event 1 False) (memory_with example_profile)))
     (''MSG1'', ''AAABBB01C02D345D'') = Some ''hello'' \<and>
   map_option m_isPending
     (messages (snd (memory_storageStage (example_event 1 False) (memory_with example_profile)))
        (''MSG1'', ''AAABBB01C02D345D'')) = Some (Some False)"
proof -
  have s: "fst (memory_storageStage (example_event 1 False) (memory_with example_profile)) =
     Resolved (SUCCESS \<lparr>r_blockedInboxOrChannels = [], r_profile = example_profile\<rparr>)"
    by (simp add: getStoreMessageContentActivityHandler_def blockedInboxOrChannels_for_def
        memory_defs example_defs)
  from storage_idempotent [of "example_event 1 False" "memory_with example_profile"
      "\<lparr>r_blockedInboxOrChannels = [], r_profile = example_profile\<rparr>"] s
  show ?thesis by (simp add: example_defs)
qed

end
